theory Spec2Isabelle
  imports Main
begin

section \<open>Objects of the player manager\<close>

text \<open>
  The module \<open>lavalink/playermanager.py\<close> holds one class, \<open>PlayerManager\<close>.  Its methods
  work on Python objects that are shared by reference: a player is reachable from the
  manager's dictionary and from its node's list of players, and a node is reachable from
  every player it hosts.  Objects therefore live in two stores, addressed by references,
  and every attribute access of the source is a lookup in a store at the moment of the
  access.  The stores are total functions: a Python reference always denotes an object.
\<close>

type_synonym node_ref = nat
type_synonym player_ref = nat

text \<open>
  The exceptions the module can raise: \<open>ValueError\<close> (line 19), the \<open>TypeError\<close> of
  \<open>issubclass\<close> on an argument that is not a class (line 18), \<open>NodeException\<close>
  (line 137), the \<open>AttributeError\<close> of an attribute access on \<open>None\<close>, and whatever a
  collaborator (the node's transport, a player's \<open>cleanup\<close>) raises.
\<close>

datatype error =
    ValueError string
  | TypeError string
  | NodeException string
  | AttributeError string
  | ExternalError string

text \<open>
  A node, as far as the manager touches it: \<open>name\<close>, \<open>available\<close>,
  \<open>_original_players\<close> and \<open>_send\<close>.  Region and penalty are read by the node manager
  only.  \<open>send_outcome\<close> is what the transport's \<open>_send\<close> does when called: it returns
  (\<open>None\<close>) or raises.
\<close>

record node_obj =
  node_name :: string
  node_region :: string
  node_available :: bool
  node_penalty :: int
  original_players :: "player_ref list"
  send_outcome :: "error option"

text \<open>
  A player, as far as the manager touches it: \<open>guild_id\<close>, \<open>node\<close> (which may be
  \<open>None\<close>, line 52 tests it) and \<open>cleanup()\<close>.  The body of \<open>cleanup\<close> belongs to the
  player class; here it is its outcome (returns or raises) and a counter of its calls.
\<close>

record player_obj =
  player_guild_id :: int
  player_node :: "node_ref option"
  cleanup_outcome :: "error option"
  cleanup_calls :: nat

text \<open>
  The \<open>cleanup\<close> of a class of players: the class has no such method, or it has one,
  which returns (\<open>None\<close>) or raises when called.
\<close>

datatype cleanup_impl = NoCleanup | CleanupDoes "error option"

text \<open>
  A class of players, as far as the manager can tell classes apart: the names of the
  class and its ancestors (\<open>__mro__\<close>), the names of the abstract base classes it has
  been registered with as a virtual subclass (empty when \<open>BasePlayer\<close> is no abstract
  base class), and the \<open>cleanup\<close> of its instances.
\<close>

record player_class =
  mro :: "string list"
  registered_with :: "string list"
  instance_cleanup :: cleanup_impl

text \<open>
  The second argument of the constructor, the session factory: a class, or a callable
  that is not a class (a function, a bound method) and returns instances of one.  Both
  are called as \<open>default_player(guild_id, node)\<close> on line 139.
\<close>

datatype factory = PyClass player_class | PyCallable player_class

text \<open>
  What leaves the manager: a command to a node (\<open>node._send(op=..., guildId=...)\<close>),
  a line of the logger, and the calls of the node manager.
\<close>

datatype event =
    Send node_ref string int
  | LogInfo string
  | GetRegion string
  | FindIdealNode "string option"

text \<open>
  The client (\<open>lavalink\<close> in the source) with everything reachable from it: the nodes in
  registration order, the two stores, the next free player reference, and the events so
  far.
\<close>

record client =
  nodes :: "node_ref list"
  node_heap :: "node_ref \<Rightarrow> node_obj"
  player_heap :: "player_ref \<Rightarrow> player_obj"
  next_player :: player_ref
  events :: "event list"

text \<open>The three attributes \<open>__init__\<close> sets (lines 21 to 23).\<close>

record manager =
  lavalink :: client
  players :: "int \<rightharpoonup> player_ref"
  default_player :: factory

text \<open>
  The node manager (\<open>lavalink/nodemanager.py\<close>) is not part of the module: its two
  methods that \<open>create\<close> calls are parameters, functions of the registered nodes.
\<close>

record node_manager =
  get_region :: "node_ref list \<Rightarrow> (node_ref \<Rightarrow> node_obj) \<Rightarrow> string \<Rightarrow> string option"
  find_ideal_node ::
    "node_ref list \<Rightarrow> (node_ref \<Rightarrow> node_obj) \<Rightarrow> string option \<Rightarrow> node_ref option"

text \<open>What \<open>create\<close> returns: a player, or (line 129) the node it was given.\<close>

datatype py_object = PlayerRef player_ref | NodeRef node_ref

section \<open>The methods\<close>

text \<open>
  Python's \<open>issubclass(player, base)\<close>: a first argument that is not a class raises
  \<open>TypeError\<close>; a class is a subclass when the base is among its ancestors or, for an
  abstract base class, when the class has been registered with it.
\<close>

fun issubclass :: "factory \<Rightarrow> string \<Rightarrow> error + bool" where
  "issubclass (PyCallable cls) base = Inl (TypeError ''issubclass() arg 1 must be a class'')"
| "issubclass (PyClass cls) base =
     Inr (base \<in> set (mro cls) \<or> base \<in> set (registered_with cls))"

text \<open>
  \<open>PlayerManager.__init__\<close>, lines 17 to 23.  The test of line 18 comes first: when it
  raises, none of the three attributes has been set.
\<close>

definition PlayerManager_init :: "client \<Rightarrow> factory \<Rightarrow> error + manager" where
  "PlayerManager_init lavalink_arg player =
     (case issubclass player ''BasePlayer'' of
        Inl e \<Rightarrow> Inl e
      | Inr sub \<Rightarrow>
          if \<not> sub
          then Inl (ValueError ''Player must implement BasePlayer or DefaultPlayer.'')
          else Inr \<lparr>lavalink = lavalink_arg, players = Map.empty, default_player = player\<rparr>)"

text \<open>The class whose instances a factory returns.\<close>

fun product_class :: "factory \<Rightarrow> player_class" where
  "product_class (PyClass cls) = cls"
| "product_class (PyCallable cls) = cls"

fun has_cleanup :: "cleanup_impl \<Rightarrow> bool" where
  "has_cleanup NoCleanup = False"
| "has_cleanup (CleanupDoes r) = True"

text \<open>
  The session capability contract in the words of the spec (section 6): the factory
  accepts \<open>(guildId, node)\<close>, which every factory here does, and produces an object that
  exposes a \<open>cleanup()\<close> operation without arguments.
\<close>

definition session_capability_spec :: "factory \<Rightarrow> bool" where
  "session_capability_spec f = has_cleanup (instance_cleanup (product_class f))"

text \<open>
  Calling \<open>cleanup()\<close> on an instance: the outcome of the method, or the
  \<open>AttributeError\<close> of a method that is not there.
\<close>

fun call_cleanup :: "cleanup_impl \<Rightarrow> error option" where
  "call_cleanup NoCleanup = Some (AttributeError ''cleanup'')"
| "call_cleanup (CleanupDoes r) = r"

definition emit :: "event \<Rightarrow> manager \<Rightarrow> manager" where
  "emit e m = m\<lparr>lavalink := (lavalink m)\<lparr>events := events (lavalink m) @ [e]\<rparr>\<rparr>"

text \<open>
  \<open>PlayerManager.destroy\<close>, lines 47 to 55.  The entry is popped first.  A player whose
  node is \<open>None\<close> skips the command (line 52) and then reaches \<open>player.node.name\<close> on
  line 55, which raises.  An exception leaves the mutations made so far in place, so
  every outcome comes with the manager as it then is.
\<close>

definition destroy :: "manager \<Rightarrow> int \<Rightarrow> (error + unit) \<times> manager" where
  "destroy m guild_id =
     (case players m guild_id of
        None \<Rightarrow> (Inr (), m)
      | Some p \<Rightarrow>
          let m1 = m\<lparr>players := (players m)(guild_id := None)\<rparr>;
              player = player_heap (lavalink m1) p
          in (case player_node player of
                None \<Rightarrow> (Inl (AttributeError ''name''), m1)
              | Some n \<Rightarrow>
                  let nd = node_heap (lavalink m1) n;
                      line = ''[NODE-'' @ node_name nd @ ''] Successfully destroyed its player''
                  in if node_available nd
                     then let m2 = emit (Send n ''destroy'' (player_guild_id player)) m1
                          in (case send_outcome nd of
                                Some e \<Rightarrow> (Inl e, m2)
                              | None \<Rightarrow> (Inr (), emit (LogInfo line) m2))
                     else (Inr (), emit (LogInfo line) m1)))"

text \<open>\<open>PlayerManager.remove\<close>, lines 85 to 87: pop, then \<open>player.cleanup()\<close>.\<close>

definition remove_pm :: "manager \<Rightarrow> int \<Rightarrow> (error + unit) \<times> manager" where
  "remove_pm m guild_id =
     (case players m guild_id of
        None \<Rightarrow> (Inr (), m)
      | Some p \<Rightarrow>
          let m1 = m\<lparr>players := (players m)(guild_id := None)\<rparr>;
              c = lavalink m1;
              player = player_heap c p;
              m2 = m1\<lparr>lavalink :=
                     c\<lparr>player_heap :=
                         (player_heap c)(p := player\<lparr>cleanup_calls := Suc (cleanup_calls player)\<rparr>)\<rparr>\<rparr>
          in (case cleanup_outcome player of
                Some e \<Rightarrow> (Inl e, m2)
              | None \<Rightarrow> (Inr (), m2)))"

text \<open>\<open>PlayerManager.get\<close>, line 98.\<close>

definition get :: "manager \<Rightarrow> int \<Rightarrow> player_ref option" where
  "get m guild_id = players m guild_id"

text \<open>Python's truth value of an optional string: \<open>None\<close> and \<open>''\<close> are false.\<close>

definition truthy :: "string option \<Rightarrow> bool" where
  "truthy s = (case s of None \<Rightarrow> False | Some x \<Rightarrow> x \<noteq> [])"

text \<open>
  The region that line 134 passes to \<open>find_ideal_node\<close>: the one parsed from the endpoint
  when an endpoint is given (lines 131 and 132), the argument otherwise.
\<close>

definition resolved_region ::
  "node_manager \<Rightarrow> client \<Rightarrow> string option \<Rightarrow> string option \<Rightarrow> string option" where
  "resolved_region nm c region endpoint =
     (case endpoint of
        None \<Rightarrow> region
      | Some ep \<Rightarrow> if truthy endpoint then get_region nm (nodes c) (node_heap c) ep else region)"

text \<open>
  Modelled from the spec: the player constructor \<open>default_player(guild_id, node)\<close>
  (\<open>BasePlayer\<close> lives in \<open>lavalink/models.py\<close>, outside the module).  It yields a new
  session bound to the guild and the node.
\<close>

definition new_player :: "factory \<Rightarrow> int \<Rightarrow> node_ref \<Rightarrow> player_obj" where
  "new_player f guild_id n =
     \<lparr>player_guild_id = guild_id, player_node = Some n,
      cleanup_outcome = call_cleanup (instance_cleanup (product_class f)), cleanup_calls = 0\<rparr>"

text \<open>
  \<open>PlayerManager.create\<close>, lines 125 to 143, with the values of its four parameters.
\<close>

definition create ::
  "node_manager \<Rightarrow> manager \<Rightarrow> int \<Rightarrow> string option \<Rightarrow> string option \<Rightarrow> node_ref option
     \<Rightarrow> (error + py_object) \<times> manager" where
  "create nm m guild_id region endpoint node =
     (case players m guild_id of
        Some p \<Rightarrow> (Inr (PlayerRef p), m)
      | None \<Rightarrow>
         (case node of
            Some n \<Rightarrow> (Inr (NodeRef n), m)
          | None \<Rightarrow>
              let c = lavalink m;
                  m1 = (case endpoint of
                          None \<Rightarrow> m
                        | Some ep \<Rightarrow> if truthy endpoint then emit (GetRegion ep) m else m);
                  region1 = resolved_region nm c region endpoint;
                  m2 = emit (FindIdealNode region1) m1
              in (case find_ideal_node nm (nodes c) (node_heap c) region1 of
                    None \<Rightarrow> (Inl (NodeException ''No available nodes!''), m2)
                  | Some n \<Rightarrow>
                      let c2 = lavalink m2;
                          p = next_player c2;
                          nd = node_heap c2 n;
                          c3 = c2\<lparr>player_heap :=
                                    (player_heap c2)(p := new_player (default_player m2) guild_id n),
                                  next_player := Suc p,
                                  node_heap :=
                                    (node_heap c2)
                                      (n := nd\<lparr>original_players := original_players nd @ [p]\<rparr>)\<rparr>;
                          m3 = m2\<lparr>lavalink := c3, players := (players m2)(guild_id \<mapsto> p)\<rparr>;
                          line = ''[NODE-'' @ node_name nd @ ''] Successfully created a player''
                      in (Inr (PlayerRef p), emit (LogInfo line) m3))))"

text \<open>
  A call of \<open>create\<close>: a keyword left out takes the default of the signature on line 100,
  \<open>region='eu'\<close>, \<open>endpoint=None\<close>, \<open>node=None\<close>.
\<close>

definition create_call ::
  "node_manager \<Rightarrow> manager \<Rightarrow> int \<Rightarrow> string option option \<Rightarrow> string option option
     \<Rightarrow> node_ref option option \<Rightarrow> (error + py_object) \<times> manager" where
  "create_call nm m guild_id region_kw endpoint_kw node_kw =
     create nm m guild_id
       (case region_kw of None \<Rightarrow> Some ''eu'' | Some r \<Rightarrow> r)
       (case endpoint_kw of None \<Rightarrow> None | Some e \<Rightarrow> e)
       (case node_kw of None \<Rightarrow> None | Some n \<Rightarrow> n)"

text \<open>The commands sent to nodes, among the events.\<close>

fun is_send :: "event \<Rightarrow> bool" where
  "is_send (Send n opc g) = True"
| "is_send e = False"

definition sent :: "manager \<Rightarrow> event list" where
  "sent m = filter is_send (events (lavalink m))"

section \<open>Node selection\<close>

text \<open>
  Modelled from the spec: the available nodes of the node manager
  (\<open>lavalink/nodemanager.py\<close> is outside the module), the registered nodes whose
  availability flag is set, in registration order.
\<close>

definition available_nodes :: "node_ref list \<Rightarrow> (node_ref \<Rightarrow> node_obj) \<Rightarrow> node_ref list" where
  "available_nodes ns h = filter (\<lambda>n. node_available (h n)) ns"

text \<open>
  Modelled from the spec: the choice among candidates of section 4.1, which is missing
  with the node manager.  The lowest penalty wins; on a tie the candidate registered
  first stays.
\<close>

fun lowest_penalty :: "(node_ref \<Rightarrow> node_obj) \<Rightarrow> node_ref \<Rightarrow> node_ref list \<Rightarrow> node_ref" where
  "lowest_penalty h best [] = best"
| "lowest_penalty h best (n # ns) =
     lowest_penalty h (if node_penalty (h n) < node_penalty (h best) then n else best) ns"

text \<open>
  Modelled from the spec: \<open>NodeManager.find_ideal_node\<close>, missing with the node manager.
  Section 4.1: when a region is given, the candidates are the available nodes of that
  region; without a region, or when none matches, all available nodes; among the
  candidates the lowest penalty wins; with no candidate the answer is none.
\<close>

definition find_ideal_node_spec ::
  "node_ref list \<Rightarrow> (node_ref \<Rightarrow> node_obj) \<Rightarrow> string option \<Rightarrow> node_ref option" where
  "find_ideal_node_spec ns h region =
     (let avail = available_nodes ns h;
          regional = (case region of
                        None \<Rightarrow> []
                      | Some r \<Rightarrow> filter (\<lambda>n. node_region (h n) = r) avail);
          candidates = (if regional = [] then avail else regional)
      in case candidates of
           [] \<Rightarrow> None
         | c # cs \<Rightarrow> Some (lowest_penalty h c cs))"

section \<open>A small cluster\<close>

text \<open>
  Three nodes: \<open>A\<close> (reference 0) in region eu with penalty 5, \<open>C\<close> (reference 1) in
  region us with penalty 1, both available, and \<open>D\<close> (reference 2) in region eu, not
  available.  Four players: guild 1 on \<open>A\<close>, guild 2 with no node, guild 3 on \<open>D\<close>, and
  guild 4 on \<open>C\<close>, whose \<open>cleanup\<close> raises.
\<close>

definition node_A :: node_obj where
  "node_A = \<lparr>node_name = ''A'', node_region = ''eu'', node_available = True,
             node_penalty = 5, original_players = [0], send_outcome = None\<rparr>"

definition node_C :: node_obj where
  "node_C = \<lparr>node_name = ''C'', node_region = ''us'', node_available = True,
             node_penalty = 1, original_players = [3], send_outcome = None\<rparr>"

definition node_D :: node_obj where
  "node_D = \<lparr>node_name = ''D'', node_region = ''eu'', node_available = False,
             node_penalty = 0, original_players = [2], send_outcome = None\<rparr>"

definition default_player_class :: player_class where
  "default_player_class = \<lparr>mro = [''DefaultPlayer'', ''BasePlayer'', ''object''],
                           registered_with = [], instance_cleanup = CleanupDoes None\<rparr>"

definition other_class :: player_class where
  "other_class = \<lparr>mro = [''dict'', ''object''], registered_with = [],
                  instance_cleanup = NoCleanup\<rparr>"

text \<open>
  A class that has a \<open>cleanup()\<close> of its own and does not inherit from \<open>BasePlayer\<close>.
\<close>

definition duck_class :: player_class where
  "duck_class = \<lparr>mro = [''DuckPlayer'', ''object''], registered_with = [],
                 instance_cleanup = CleanupDoes None\<rparr>"

definition player_1 :: player_obj where
  "player_1 = \<lparr>player_guild_id = 1, player_node = Some 0,
               cleanup_outcome = None, cleanup_calls = 0\<rparr>"

definition player_2 :: player_obj where
  "player_2 = \<lparr>player_guild_id = 2, player_node = None,
               cleanup_outcome = None, cleanup_calls = 0\<rparr>"

definition player_3 :: player_obj where
  "player_3 = \<lparr>player_guild_id = 3, player_node = Some 2,
               cleanup_outcome = None, cleanup_calls = 0\<rparr>"

definition player_4 :: player_obj where
  "player_4 = \<lparr>player_guild_id = 4, player_node = Some 1,
               cleanup_outcome = Some (ExternalError ''cleanup''), cleanup_calls = 0\<rparr>"

definition client0 :: client where
  "client0 = \<lparr>nodes = [0, 1, 2],
              node_heap = (\<lambda>r. node_D)(0 := node_A, 1 := node_C),
              player_heap = (\<lambda>r. player_2)(0 := player_1, 2 := player_3, 3 := player_4),
              next_player = 4,
              events = []\<rparr>"

definition manager0 :: manager where
  "manager0 = \<lparr>lavalink = client0,
               players = [1 \<mapsto> 0, 2 \<mapsto> 1, 3 \<mapsto> 2, 4 \<mapsto> 3],
               default_player = PyClass default_player_class\<rparr>"

text \<open>The same cluster with every node down.\<close>

definition client_down :: client where
  "client_down = client0\<lparr>node_heap := (\<lambda>r. node_D)\<rparr>"

definition manager_down :: manager where
  "manager_down = manager0\<lparr>lavalink := client_down\<rparr>"

text \<open>
  A node manager for the cluster: selection as the spec has it, and a region parser that
  recognises no endpoint.
\<close>

definition nm_spec :: node_manager where
  "nm_spec = \<lparr>get_region = (\<lambda>ns h ep. None), find_ideal_node = find_ideal_node_spec\<rparr>"

section \<open>Construction\<close>

text \<open>
  C7, as the claim states it, fails.  The constructor does not test the capability
  contract.  A class whose instances expose \<open>cleanup()\<close> but which does not inherit from
  \<open>BasePlayer\<close> satisfies the contract and is refused with the \<open>ValueError\<close> of line 19;
  a factory function whose products expose \<open>cleanup()\<close> satisfies it too and is refused
  with the \<open>TypeError\<close> of \<open>issubclass\<close>.
\<close>

theorem init_capability_counterexample:
  "session_capability_spec (PyClass duck_class) \<and>
   PlayerManager_init client0 (PyClass duck_class) =
     Inl (ValueError ''Player must implement BasePlayer or DefaultPlayer.'') \<and>
   session_capability_spec (PyCallable default_player_class) \<and>
   PlayerManager_init client0 (PyCallable default_player_class) =
     Inl (TypeError ''issubclass() arg 1 must be a class'')"
  by (simp add: session_capability_spec_def PlayerManager_init_def duck_class_def
      default_player_class_def)

text \<open>
  C7, amended.  What the constructor tests is \<open>issubclass(player, BasePlayer)\<close>.  A
  factory that is not a class raises \<open>TypeError\<close>; a class that neither inherits from
  \<open>BasePlayer\<close> nor is registered with it raises the \<open>ValueError\<close> of line 19; in both
  cases no manager comes into being.  Every class that inherits from \<open>BasePlayer\<close> or is
  registered with it gives a manager with an empty mapping that holds the client and the
  class.  Whether the instances expose \<open>cleanup()\<close> plays no part in the outcome.
\<close>

theorem init_checks_subclass:
  "PlayerManager_init c (PyCallable cls) =
     Inl (TypeError ''issubclass() arg 1 must be a class'') \<and>
   (''BasePlayer'' \<notin> set (mro cls) \<union> set (registered_with cls) \<longrightarrow>
      PlayerManager_init c (PyClass cls) =
        Inl (ValueError ''Player must implement BasePlayer or DefaultPlayer.'')) \<and>
   (''BasePlayer'' \<in> set (mro cls) \<union> set (registered_with cls) \<longrightarrow>
      PlayerManager_init c (PyClass cls) =
        Inr \<lparr>lavalink = c, players = Map.empty, default_player = PyClass cls\<rparr>) \<and>
   isl (PlayerManager_init c (PyClass (cls\<lparr>instance_cleanup := k\<rparr>))) =
     isl (PlayerManager_init c (PyClass cls))"
  by (simp add: PlayerManager_init_def)

theorem init_checks_subclass_witness:
  "PlayerManager_init client0 (PyCallable other_class) =
     Inl (TypeError ''issubclass() arg 1 must be a class'') \<and>
   ''BasePlayer'' \<notin> set (mro other_class) \<union> set (registered_with other_class) \<and>
   PlayerManager_init client0 (PyClass other_class) =
     Inl (ValueError ''Player must implement BasePlayer or DefaultPlayer.'') \<and>
   ''BasePlayer'' \<in> set (mro default_player_class) \<union> set (registered_with default_player_class) \<and>
   PlayerManager_init client0 (PyClass default_player_class) =
     Inr \<lparr>lavalink = client0, players = Map.empty,
          default_player = PyClass default_player_class\<rparr>"
  using init_checks_subclass [of client0 other_class]
        init_checks_subclass [of client0 default_player_class]
  by (simp add: other_class_def default_player_class_def)

section \<open>Creating a player\<close>

text \<open>
  C4.  For a guild that already has a player, every call of \<open>create\<close>, whatever its
  region, endpoint and node arguments and whether they are given or left out, returns that
  player and leaves the manager as it was: the mapping, both stores and the events, so
  that the node manager has not been called.
\<close>

theorem create_existing_returns_it:
  "players m guild_id = Some p \<Longrightarrow>
   create_call nm m guild_id region_kw endpoint_kw node_kw = (Inr (PlayerRef p), m)"
  by (simp add: create_call_def create_def)

theorem create_existing_returns_it_witness:
  "players manager0 1 = Some 0 \<and>
   create_call nm_spec manager0 1 (Some (Some ''us'')) None (Some (Some 1)) =
     (Inr (PlayerRef 0), manager0)"
  using create_existing_returns_it [of manager0 1 0 nm_spec "Some (Some ''us'')" None "Some (Some 1)"]
  by (simp add: manager0_def)

text \<open>
  C3.  For a guild without a player and a call without a node, when the node manager
  finds no node for the region the call resolves, \<open>create\<close> raises the
  \<open>NodeException\<close> of line 137; the mapping and both stores are as before, so no
  player has been registered and no node's list of players has changed.
\<close>

theorem create_no_node_raises:
  "players m guild_id = None \<Longrightarrow>
   find_ideal_node nm (nodes (lavalink m)) (node_heap (lavalink m))
     (resolved_region nm (lavalink m) region endpoint) = None \<Longrightarrow>
   fst (create nm m guild_id region endpoint None) = Inl (NodeException ''No available nodes!'') \<and>
   players (snd (create nm m guild_id region endpoint None)) = players m \<and>
   node_heap (lavalink (snd (create nm m guild_id region endpoint None))) = node_heap (lavalink m) \<and>
   player_heap (lavalink (snd (create nm m guild_id region endpoint None))) = player_heap (lavalink m) \<and>
   next_player (lavalink (snd (create nm m guild_id region endpoint None))) = next_player (lavalink m)"
  by (simp add: create_def emit_def Let_def split: option.splits)

theorem create_no_node_raises_witness:
  "players manager_down 7 = None \<and>
   find_ideal_node nm_spec (nodes (lavalink manager_down)) (node_heap (lavalink manager_down))
     (resolved_region nm_spec (lavalink manager_down) (Some ''eu'') None) = None \<and>
   fst (create nm_spec manager_down 7 (Some ''eu'') None None) =
     Inl (NodeException ''No available nodes!'') \<and>
   players (snd (create nm_spec manager_down 7 (Some ''eu'') None None)) = players manager_down \<and>
   node_heap (lavalink (snd (create nm_spec manager_down 7 (Some ''eu'') None None))) =
     node_heap (lavalink manager_down)"
proof -
  have absent: "players manager_down 7 = None"
    by (simp add: manager_down_def manager0_def)
  have none: "find_ideal_node nm_spec (nodes (lavalink manager_down))
      (node_heap (lavalink manager_down))
      (resolved_region nm_spec (lavalink manager_down) (Some ''eu'') None) = None"
    by (simp add: nm_spec_def resolved_region_def manager_down_def client_down_def client0_def
        find_ideal_node_spec_def available_nodes_def node_D_def)
  from create_no_node_raises [OF absent none] absent none show ?thesis
    by simp
qed

text \<open>
  C1.  What \<open>create\<close> does with an explicit node for a guild without a player: line 129
  returns the node itself.  No player is made, the mapping and the node's list of players
  stay as they were.
\<close>

theorem create_with_node_returns_node:
  "players manager0 7 = None \<and>
   create_call nm_spec manager0 7 None None (Some (Some 1)) = (Inr (NodeRef 1), manager0)"
  by (simp add: create_call_def create_def manager0_def)

text \<open>
  C6.  What \<open>create\<close> does when node, region and endpoint are all left out: the region
  is the default \<open>'eu'\<close> of line 100, so the node manager is asked for a node of region
  eu.  In the cluster above the new player lands on \<open>A\<close> (eu, penalty 5), although \<open>C\<close>
  (us, penalty 1) is available and is the node of lowest penalty in the cluster.
\<close>

theorem create_unspecified_asks_for_eu:
  "fst (create_call nm_spec manager0 7 None None None) = Inr (PlayerRef 4) \<and>
   player_node (player_heap (lavalink (snd (create_call nm_spec manager0 7 None None None))) 4) =
     Some 0 \<and>
   events (lavalink (snd (create_call nm_spec manager0 7 None None None))) =
     [FindIdealNode (Some ''eu''), LogInfo ''[NODE-A] Successfully created a player''] \<and>
   find_ideal_node_spec (nodes client0) (node_heap client0) None = Some 1"
  by (simp add: create_call_def create_def manager0_def client0_def nm_spec_def emit_def
      resolved_region_def find_ideal_node_spec_def available_nodes_def new_player_def
      node_A_def node_C_def node_D_def)

section \<open>Destroying a player that is not there\<close>

text \<open>
  C8.  For every guild that is not in the mapping, \<open>destroy\<close> returns without an error
  and leaves the manager as it was: the mapping, the stores and the events, so that no
  command has been sent.
\<close>

theorem destroy_absent_noop:
  "players m guild_id = None \<Longrightarrow> destroy m guild_id = (Inr (), m)"
  by (simp add: destroy_def)

theorem destroy_absent_noop_witness:
  "players manager0 9 = None \<and> destroy manager0 9 = (Inr (), manager0)"
  using destroy_absent_noop [of manager0 9]
  by (simp add: manager0_def)

section \<open>Destroying a registered player\<close>

text \<open>
  C5.  For every guild in the mapping, after \<open>destroy\<close> (however it ends) \<open>get\<close> finds
  nothing for the guild, and the commands sent are those sent before followed by exactly
  one \<open>destroy\<close> command, to the player's node and with \<open>guildId\<close> the player's
  \<open>guild_id\<close>, when the player has a node and that node is available, and by none
  otherwise.
\<close>

theorem destroy_evicts_and_sends_once:
  "players m guild_id = Some p \<Longrightarrow>
   get (snd (destroy m guild_id)) guild_id = None \<and>
   sent (snd (destroy m guild_id)) =
     sent m @
       (case player_node (player_heap (lavalink m) p) of
          None \<Rightarrow> []
        | Some n \<Rightarrow>
            if node_available (node_heap (lavalink m) n)
            then [Send n ''destroy'' (player_guild_id (player_heap (lavalink m) p))]
            else [])"
  by (simp add: destroy_def get_def sent_def emit_def Let_def split: option.splits)

theorem destroy_evicts_and_sends_once_witness:
  "players manager0 1 = Some 0 \<and>
   get (snd (destroy manager0 1)) 1 = None \<and>
   sent manager0 = [] \<and>
   sent (snd (destroy manager0 1)) = [Send 0 ''destroy'' 1] \<and>
   players manager0 3 = Some 2 \<and>
   get (snd (destroy manager0 3)) 3 = None \<and>
   sent (snd (destroy manager0 3)) = []"
  using destroy_evicts_and_sends_once [of manager0 1 0]
        destroy_evicts_and_sends_once [of manager0 3 2]
  by (simp add: manager0_def client0_def sent_def player_1_def player_3_def node_A_def node_D_def)

text \<open>
  C2.  What \<open>destroy\<close> does for a registered player whose node is \<open>None\<close>: the entry is
  evicted and nothing is sent, but the call does not return; the log line of line 55 reads
  \<open>player.node.name\<close> and raises \<open>AttributeError\<close>.
\<close>

theorem destroy_without_node_raises:
  "players manager0 2 = Some 1 \<and>
   player_node (player_heap (lavalink manager0) 1) = None \<and>
   destroy manager0 2 =
     (Inl (AttributeError ''name''), manager0\<lparr>players := (players manager0)(2 := None)\<rparr>)"
  by (simp add: destroy_def manager0_def client0_def player_2_def)

section \<open>Removing a player\<close>

text \<open>
  C9.  For every guild in the mapping, \<open>remove\<close> evicts the entry, calls the player's
  \<open>cleanup\<close> once (its counter goes up by one and no other player changes) and emits
  no event, so that no command is sent; for a guild that is not in the mapping the
  manager stays as it was and no \<open>cleanup\<close> is called.
\<close>

theorem remove_evicts_and_cleans_once:
  "(players m guild_id = Some p \<longrightarrow>
      players (snd (remove_pm m guild_id)) = (players m)(guild_id := None) \<and>
      player_heap (lavalink (snd (remove_pm m guild_id))) =
        (player_heap (lavalink m))
          (p := (player_heap (lavalink m) p)
                  \<lparr>cleanup_calls := Suc (cleanup_calls (player_heap (lavalink m) p))\<rparr>) \<and>
      events (lavalink (snd (remove_pm m guild_id))) = events (lavalink m) \<and>
      node_heap (lavalink (snd (remove_pm m guild_id))) = node_heap (lavalink m)) \<and>
   (players m guild_id = None \<longrightarrow> remove_pm m guild_id = (Inr (), m))"
  by (simp add: remove_pm_def Let_def split: option.splits)

theorem remove_evicts_and_cleans_once_witness:
  "players manager0 1 = Some 0 \<and>
   players (snd (remove_pm manager0 1)) 1 = None \<and>
   cleanup_calls (player_heap (lavalink manager0) 0) = 0 \<and>
   cleanup_calls (player_heap (lavalink (snd (remove_pm manager0 1))) 0) = 1 \<and>
   events (lavalink (snd (remove_pm manager0 1))) = [] \<and>
   players manager0 9 = None \<and>
   remove_pm manager0 9 = (Inr (), manager0)"
  using remove_evicts_and_cleans_once [of manager0 1 0]
        remove_evicts_and_cleans_once [of manager0 9 0]
  by (simp add: manager0_def client0_def player_1_def)

text \<open>
  C10.  \<open>remove\<close> pops the entry before it calls \<open>cleanup\<close>: when \<open>cleanup\<close> raises,
  the error reaches the caller and the entry is gone all the same, so that \<open>get\<close> finds
  nothing for the guild afterwards.
\<close>

theorem remove_cleanup_raises_entry_gone:
  "players m guild_id = Some p \<Longrightarrow>
   cleanup_outcome (player_heap (lavalink m) p) = Some e \<Longrightarrow>
   fst (remove_pm m guild_id) = Inl e \<and>
   players (snd (remove_pm m guild_id)) = (players m)(guild_id := None) \<and>
   get (snd (remove_pm m guild_id)) guild_id = None"
  by (simp add: remove_pm_def get_def Let_def)

theorem remove_cleanup_raises_entry_gone_witness:
  "players manager0 4 = Some 3 \<and>
   cleanup_outcome (player_heap (lavalink manager0) 3) = Some (ExternalError ''cleanup'') \<and>
   fst (remove_pm manager0 4) = Inl (ExternalError ''cleanup'') \<and>
   get (snd (remove_pm manager0 4)) 4 = None"
proof -
  have present: "players manager0 4 = Some 3"
    by (simp add: manager0_def)
  have raises: "cleanup_outcome (player_heap (lavalink manager0) 3) = Some (ExternalError ''cleanup'')"
    by (simp add: manager0_def client0_def player_4_def)
  from remove_cleanup_raises_entry_gone [OF present raises] present raises show ?thesis
    by simp
qed

end
